theory Spec2Isabelle
  imports Main "HOL-Library.Sublist"
begin

section \<open>Theme manager (packages/apputils/src/thememanager.ts)\<close>

text \<open>
  The theme manager is an object with mutable fields that drives the browser: it appends
  stylesheet links to the document body, sets CSS variables on the document element, and
  schedules window timers. The model is one record holding the fields of the object and the
  part of the browser it touches; every method takes the record and returns the new one.

  Objects used as dictionaries, \<open>{ [key: string]: T }\<close>, are maps from the property name,
  or association lists where \<open>Object.keys\<close> is taken. Only own properties are modelled: a
  name such as \<open>constructor\<close>, which every JavaScript object inherits from its prototype,
  is looked up here like any other absent key.
\<close>

subsection \<open>Constants\<close>

definition REQUEST_INTERVAL :: nat where
  \<comment> \<open>The number of milliseconds between theme loading attempts.\<close>
  "REQUEST_INTERVAL = 75"

definition REQUEST_THRESHOLD :: nat where
  \<comment> \<open>The number of times to attempt to load a theme before giving up.\<close>
  "REQUEST_THRESHOLD = 20"

definition cssProps :: "string list" where
  "cssProps = [''color'', ''font-family'', ''size'']"

subsection \<open>Data\<close>

type_synonym 'v Dict = "(string \<times> 'v) list"

datatype error = Error string | TypeError string

text \<open>
  \<open>IThemeManager.ITheme\<close> is declared in tokens.ts. Its \<open>load\<close> and \<open>unload\<close> are callbacks
  of the extension that provides the theme; \<open>load\<close> is modelled by the list of paths that
  the callback hands to \<open>loadCSS\<close>, and \<open>unload\<close> as a callback that leaves the manager
  alone.
\<close>

record ITheme =
  name :: string
  isLight :: bool
  themeScrollbars :: bool
  load :: "string list"

text \<open>A \<open>link\<close> element: its identity as a DOM node and its attributes.\<close>

record HTMLLinkElement =
  node :: nat
  rel :: string
  type_attr :: string
  href :: string

text \<open>The promise of a theme load in flight, named by the theme that is loading.\<close>

datatype promise = Loading string

text \<open>\<open>ISettingRegistry.ISettings\<close>, as far as the manager reads it.\<close>

record ISettings =
  composite_theme :: string
  default_theme :: string
  user_overrides :: "string Dict option"

text \<open>
  What the manager needs from outside: \<open>URLExt.isLocal\<close> and \<open>URLExt.join\<close> of coreutils
  and the browser's \<open>CSS.supports\<close>.
\<close>

record host_env =
  isLocal :: "string \<Rightarrow> bool"
  join :: "string \<Rightarrow> string \<Rightarrow> string"
  supports :: "string \<Rightarrow> string \<Rightarrow> bool"

record ThemeManager =
  base :: string
  current :: "string option"
  links :: "HTMLLinkElement list"
  overrides :: "string Dict"
  outstanding :: "promise option"
  pending :: nat
  requests :: "string \<rightharpoonup> nat"
  themes :: "string \<rightharpoonup> ITheme"
  splash :: bool
  \<comment> \<open>the browser: children of \<open>document.body\<close>, the inline style of \<open>document.documentElement\<close>,
      the window's timers (handle to delay), the dialogs shown\<close>
  body :: "HTMLLinkElement list"
  next_node :: nat
  style :: "string \<rightharpoonup> string"
  timers :: "nat \<rightharpoonup> nat"
  last_handle :: nat
  dialogs :: "string list"
  splashes :: "bool list"

subsection \<open>validateCSS\<close>

fun str_includes :: "string \<Rightarrow> string \<Rightarrow> bool" where
  \<comment> \<open>\<open>key.includes(p)\<close>: \<open>p\<close> occurs in \<open>key\<close> as a substring\<close>
  "str_includes [] p = (p = [])"
| "str_includes (c # cs) p = (prefix p (c # cs) \<or> str_includes cs p)"

definition css_prop :: "string \<Rightarrow> string option" where
  \<comment> \<open>the loop of \<open>validateCSS\<close>: the first of \<open>cssProps\<close> that the key includes\<close>
  "css_prop key = find (str_includes key) cssProps"

definition validateCSS :: "(string \<Rightarrow> string \<Rightarrow> bool) \<Rightarrow> string \<Rightarrow> string \<Rightarrow> bool" where
  "validateCSS css_supports key val =
     (case css_prop key of
        None \<Rightarrow> False
      | Some prop \<Rightarrow> if css_supports prop val then True else False)"

definition supports_any :: "string \<Rightarrow> string \<Rightarrow> bool" where
  \<comment> \<open>a browser that accepts every value for every property\<close>
  "supports_any prop val = True"

subsection \<open>register\<close>




subsection \<open>CSS overrides\<close>

definition dict_get :: "'v Dict \<Rightarrow> string \<Rightarrow> 'v option" where
  "dict_get d key = map_of d key"

fun dict_set :: "'v Dict \<Rightarrow> string \<Rightarrow> 'v \<Rightarrow> 'v Dict" where
  \<comment> \<open>\<open>d[key] = v\<close>: an existing property keeps its place, a new one goes last\<close>
  "dict_set [] key v = [(key, v)]"
| "dict_set ((k, w) # d) key v = (if k = key then (k, v) # d else (k, w) # dict_set d key v)"

definition spread :: "'v Dict \<Rightarrow> 'v Dict \<Rightarrow> 'v Dict" where
  \<comment> \<open>\<open>{ ...a, ...b }\<close>\<close>
  "spread a b = fold (\<lambda>(k, v) d. dict_set d k v) (a @ b) []"

definition keys :: "'v Dict \<Rightarrow> string list" where
  \<comment> \<open>\<open>Object.keys\<close>, in the order of the association list\<close>
  "keys d = map fst d"

definition css_var :: "string \<Rightarrow> string" where
  "css_var key = ''--jp-'' @ key"

definition setProperty :: "string \<Rightarrow> string \<Rightarrow> ThemeManager \<Rightarrow> ThemeManager" where
  "setProperty prop val m = m\<lparr>style := (style m)(prop \<mapsto> val)\<rparr>"

definition removeProperty :: "string \<Rightarrow> ThemeManager \<Rightarrow> ThemeManager" where
  "removeProperty prop m = m\<lparr>style := (style m)(prop := None)\<rparr>"

definition load_override ::
  "host_env \<Rightarrow> string Dict \<Rightarrow> string \<Rightarrow> ThemeManager \<Rightarrow> ThemeManager" where
  \<comment> \<open>the body of the \<open>forEach\<close> in \<open>loadCSSOverrides\<close>; \<open>undefined\<close> and the empty string
      are falsy\<close>
  "load_override env newOverrides key m =
     (case dict_get newOverrides key of
        None \<Rightarrow> removeProperty (css_var key) m
      | Some v \<Rightarrow>
          if v \<noteq> [] then
            (if validateCSS (supports env) key v
             then setProperty (css_var key) v m
             else removeProperty (css_var key) m)
          else removeProperty (css_var key) m)"

definition user_overrides_or_empty :: "ISettings \<Rightarrow> string Dict" where
  \<comment> \<open>\<open>(this._settings.user['overrides'] as Dict<string>) || {}\<close>\<close>
  "user_overrides_or_empty settings = (case user_overrides settings of None \<Rightarrow> [] | Some d \<Rightarrow> d)"

definition loadCSSOverrides :: "host_env \<Rightarrow> ISettings \<Rightarrow> ThemeManager \<Rightarrow> ThemeManager" where
  "loadCSSOverrides env settings m =
     (let newOverrides = user_overrides_or_empty settings;
          m' = fold (load_override env newOverrides) (keys (spread (overrides m) newOverrides)) m
      in m'\<lparr>overrides := newOverrides\<rparr>)"

subsection \<open>loadCSS and _loadTheme\<close>

definition resolve :: "host_env \<Rightarrow> string \<Rightarrow> string \<Rightarrow> string" where
  "resolve env b path = (if isLocal env path then join env b path else path)"

definition loadCSS :: "host_env \<Rightarrow> string \<Rightarrow> ThemeManager \<Rightarrow> ThemeManager" where
  \<comment> \<open>what \<open>loadCSS\<close> does before it returns; its promise waits for the browser to load the file\<close>
  "loadCSS env path m =
     (let link = \<lparr>node = next_node m, rel = ''stylesheet'', type_attr = ''text/css'',
                  href = resolve env (base m) path\<rparr>
      in m\<lparr>next_node := Suc (next_node m), body := body m @ [link], links := links m @ [link]\<rparr>)"

definition in_document :: "HTMLLinkElement \<Rightarrow> ThemeManager \<Rightarrow> bool" where
  \<comment> \<open>\<open>link.parentElement\<close> is set\<close>
  "in_document link m = (node link \<in> set (map node (body m)))"

definition removeChild :: "HTMLLinkElement \<Rightarrow> ThemeManager \<Rightarrow> ThemeManager" where
  "removeChild link m = m\<lparr>body := filter (\<lambda>b. node b \<noteq> node link) (body m)\<rparr>"

definition unload_links :: "ThemeManager \<Rightarrow> ThemeManager" where
  \<comment> \<open>Unload any CSS files that have been loaded.\<close>
  "unload_links m =
     (fold (\<lambda>link m'. if in_document link m' then removeChild link m' else m') (links m) m)
       \<lparr>links := []\<rparr>"

datatype 'a result = Ok 'a | Throw error

definition show_splash :: "bool \<Rightarrow> ThemeManager \<Rightarrow> ThemeManager" where
  \<comment> \<open>\<open>this._splash.show(light)\<close>\<close>
  "show_splash light m = m\<lparr>splashes := splashes m @ [light]\<rparr>"

definition loadTheme :: "host_env \<Rightarrow> string \<Rightarrow> ThemeManager \<Rightarrow> promise result \<times> ThemeManager" where
  \<comment> \<open>\<open>_loadTheme\<close> up to the promise it returns; reading a property of \<open>themes[x]\<close> for an
      unregistered \<open>x\<close> throws a TypeError, and the fields written before it stay written.
      \<open>current ? ... : ...\<close> takes the empty name for no theme, as it does \<open>null\<close>\<close>
  "loadTheme env theme m =
     (if splash m \<and> themes m theme = None
      then (Throw (TypeError ''isLight''), m)
      else
        let m1 = (if splash m then show_splash (isLight (the (themes m theme))) m else m);
            m2 = unload_links m1
        in if (case current m of None \<Rightarrow> False | Some c \<Rightarrow> c \<noteq> [] \<and> themes m c = None)
           then (Throw (TypeError ''unload''), m2)
           else
             (case themes m theme of
                None \<Rightarrow> (Throw (TypeError ''load''), m2)
              | Some t \<Rightarrow> (Ok (Loading theme), fold (loadCSS env) (load t) m2)))"

definition onError :: "string \<Rightarrow> ThemeManager \<Rightarrow> ThemeManager" where
  "onError reason m = m\<lparr>dialogs := dialogs m @ [reason]\<rparr>"


subsection \<open>_loadSettings\<close>

definition clearTimeout :: "nat \<Rightarrow> ThemeManager \<Rightarrow> ThemeManager" where
  "clearTimeout h m = m\<lparr>timers := (timers m)(h := None)\<rparr>"

definition setTimeout :: "nat \<Rightarrow> ThemeManager \<Rightarrow> nat \<times> ThemeManager" where
  \<comment> \<open>a new timer of the given delay; its handle is a positive number\<close>
  "setTimeout delay m =
     (let h = Suc (last_handle m) in (h, m\<lparr>timers := (timers m)(h \<mapsto> delay), last_handle := h\<rparr>))"

text \<open>How one call of \<open>_loadSettings\<close> ends.\<close>

datatype outcome =
    Chained            \<comment> \<open>waits for the outstanding promise, then calls itself\<close>
  | Waiting            \<comment> \<open>a timer will call it again\<close>
  | Loaded             \<comment> \<open>the theme exists and is loading\<close>
  | Load_threw error   \<comment> \<open>the theme exists and \<open>_loadTheme\<close> threw\<close>
  | Fallback           \<comment> \<open>gave up; the default theme is loading\<close>
  | Fallback_threw error
  | Failed             \<comment> \<open>gave up; neither theme is there\<close>

definition next_count :: "nat option \<Rightarrow> nat" where
  \<comment> \<open>\<open>requests[theme] ? requests[theme] + 1 : 1\<close>\<close>
  "next_count c = (case c of None \<Rightarrow> 1 | Some n \<Rightarrow> if n \<noteq> 0 then n + 1 else 1)"

definition loadSettings :: "host_env \<Rightarrow> ISettings \<Rightarrow> ThemeManager \<Rightarrow> outcome \<times> ThemeManager" where
  "loadSettings env settings m =
     (let m1 = (if pending m \<noteq> 0 then (clearTimeout (pending m) m)\<lparr>pending := 0\<rparr> else m);
          theme = composite_theme settings
      in if outstanding m \<noteq> None then (Chained, m1\<lparr>outstanding := None\<rparr>)
         else
           let n = next_count (requests m1 theme);
               m2 = m1\<lparr>requests := (requests m1)(theme \<mapsto> n)\<rparr>
           in if themes m2 theme \<noteq> None then
                (case loadTheme env theme m2 of
                   (Throw e, m3) \<Rightarrow> (Load_threw e, m3)
                 | (Ok p, m3) \<Rightarrow>
                     (Loaded, m3\<lparr>outstanding := Some p, requests := (requests m3)(theme := None)\<rparr>))
              else if n > REQUEST_THRESHOLD then
                (let fallback = default_theme settings;
                     m3 = m2\<lparr>requests := (requests m2)(theme := None)\<rparr>
                 in if themes m3 fallback = None then
                      (Failed, onError (''Neither theme '' @ theme @ '' nor default '' @ fallback
                                         @ '' loaded.'') m3)
                    else
                      (case loadTheme env fallback m3 of
                         (Throw e, m4) \<Rightarrow> (Fallback_threw e, m4)
                       | (Ok p, m4) \<Rightarrow> (Fallback, m4\<lparr>outstanding := Some p\<rparr>)))
              else
                (case setTimeout REQUEST_INTERVAL m2 of
                   (h, m3) \<Rightarrow> (Waiting, m3\<lparr>pending := h\<rparr>)))"

subsection \<open>The retry loop\<close>














subsection \<open>A new manager on an empty page\<close>

definition new_ThemeManager :: "string \<Rightarrow> bool \<Rightarrow> ThemeManager" where
  \<comment> \<open>the constructor and the field initialisers; the settings load later\<close>
  "new_ThemeManager url with_splash =
     \<lparr>base = url, current = None, links = [], overrides = [], outstanding = None, pending = 0,
      requests = Map.empty, themes = Map.empty, splash = with_splash,
      body = [], next_node = 0, style = Map.empty, timers = Map.empty, last_handle = 0,
      dialogs = [], splashes = []\<rparr>"

definition local_env :: host_env where
  \<comment> \<open>every path is local and joined to the base with a slash; \<open>CSS.supports\<close> accepts all\<close>
  "local_env = \<lparr>isLocal = (\<lambda>path. True), join = (\<lambda>b path. b @ ''/'' @ path),
                 supports = supports_any\<rparr>"


definition dark_settings :: ISettings where
  "dark_settings = \<lparr>composite_theme = ''JupyterLab Dark'', default_theme = ''JupyterLab Light'',
                     user_overrides = None\<rparr>"

definition light_theme :: ITheme where
  "light_theme = \<lparr>name = ''JupyterLab Light'', isLight = True, themeScrollbars = False,
                   load = [''@jupyterlab/theme-light-extension/index.css'']\<rparr>"

subsection \<open>Overrides in the settings of a user\<close>

definition override_of :: "host_env \<Rightarrow> string Dict \<Rightarrow> string \<Rightarrow> string option" where
  \<comment> \<open>what one round of the \<open>forEach\<close> leaves in the variable of its key\<close>
  "override_of env newOverrides key =
     (case dict_get newOverrides key of
        None \<Rightarrow> None
      | Some v \<Rightarrow> if v \<noteq> [] \<and> validateCSS (supports env) key v then Some v else None)"

definition override_settings :: ISettings where
  "override_settings =
     \<lparr>composite_theme = ''JupyterLab Dark'', default_theme = ''JupyterLab Light'',
      user_overrides = Some [(''ui-font-size1'', ''15px''), (''border-width'', ''2px''),
                             (''content-font-family'', [])]\<rparr>"

definition overridden_manager :: ThemeManager where
  "overridden_manager =
     (new_ThemeManager ''/lab/api/themes'' False)
       \<lparr>overrides := [(''code-font-size'', ''14px'')],
        style := [''--jp-code-font-size'' \<mapsto> ''14px'']\<rparr>"

subsection \<open>Stylesheets of a theme\<close>

definition links_fresh :: "ThemeManager \<Rightarrow> bool" where
  \<comment> \<open>the nodes of the links were created on this page: the next node is a new one\<close>
  "links_fresh m = list_all (\<lambda>l. node l < next_node m) (links m)"

fun stylesheets :: "host_env \<Rightarrow> string \<Rightarrow> nat \<Rightarrow> string list \<Rightarrow> HTMLLinkElement list" where
  \<comment> \<open>the elements that \<open>loadCSS\<close> creates for a list of paths, from node \<open>n\<close> on\<close>
  "stylesheets env b n [] = []"
| "stylesheets env b n (p # ps) =
     \<lparr>node = n, rel = ''stylesheet'', type_attr = ''text/css'', href = resolve env b p\<rparr>
       # stylesheets env b (Suc n) ps"

definition dark_theme :: ITheme where
  "dark_theme = \<lparr>name = ''JupyterLab Dark'', isLight = False, themeScrollbars = True,
                  load = [''@jupyterlab/theme-dark-extension/index.css'']\<rparr>"

definition lit_manager :: ThemeManager where
  \<comment> \<open>both themes are registered and the light one is loaded\<close>
  "lit_manager =
     (new_ThemeManager ''/lab/api/themes'' False)
       \<lparr>current := Some ''JupyterLab Light'',
        links := stylesheets local_env ''/lab/api/themes'' 0 (load light_theme),
        themes := [''JupyterLab Light'' \<mapsto> light_theme, ''JupyterLab Dark'' \<mapsto> dark_theme],
        body := stylesheets local_env ''/lab/api/themes'' 0 (load light_theme),
        next_node := 1\<rparr>"

subsection \<open>The end of the retry loop\<close>



section \<open>HTML viewer (packages/htmlviewer/src/index.ts)\<close>

text \<open>
  The viewer is a document widget whose content is an \<open>IFrame\<close>. It renders when the
  context is ready and again whenever an \<open>ActivityMonitor\<close> on the model's \<open>contentChanged\<close>
  signal reports that the changes have stopped. What happens to the viewer is a list of
  events, each handled by \<open>step\<close>; time passes in ticks of a millisecond.
\<close>

definition RENDER_TIMEOUT :: nat where
  \<comment> \<open>The timeout to wait for change activity to have ceased before rendering.\<close>
  "RENDER_TIMEOUT = 1000"

definition CSS_CLASS :: string where
  "CSS_CLASS = ''jp-HTMLViewer''"

text \<open>
  The \<open>IFrame\<close> widget of apputils is not among the sources: it is the record of what it is
  constructed with, the url it shows and its CSS classes.
\<close>

record IFrame =
  sandbox :: bool
  exceptions :: "string list"
  url :: string
  classes :: "string list"

definition new_IFrame :: "bool \<Rightarrow> string list \<Rightarrow> IFrame" where
  \<comment> \<open>Modelled from the spec: \<open>new IFrame({ sandbox, exceptions })\<close> makes the "sandboxed
      iframe" of the spec, which keeps the two options as it gets them and shows no url yet.\<close>
  "new_IFrame sb ex = \<lparr>sandbox = sb, exceptions = ex, url = [], classes = []\<rparr>"

definition addClass :: "string \<Rightarrow> IFrame \<Rightarrow> IFrame" where
  "addClass c f = (if c \<in> set (classes f) then f else f\<lparr>classes := classes f @ [c]\<rparr>)"

record ActivityMonitor =
  timeout :: nat
  timer :: "nat option"

definition new_ActivityMonitor :: "nat \<Rightarrow> ActivityMonitor" where
  \<comment> \<open>Modelled from the spec: \<open>ActivityMonitor\<close> of coreutils is not among the sources. The
      spec calls rendering a debounce, and the viewer hands the monitor "the timeout to wait
      for change activity to have ceased": the monitor holds a timer that every signal starts
      anew with the whole timeout, and emits \<open>activityStopped\<close> when the timer runs out.
      \<open>timer\<close> is the number of milliseconds left, \<open>None\<close> when no timer runs.\<close>
  "new_ActivityMonitor t = \<lparr>timeout = t, timer = None\<rparr>"

definition onSignalFired :: "ActivityMonitor \<Rightarrow> ActivityMonitor" where
  \<comment> \<open>Modelled from the spec: a signal of the monitored activity starts the timer anew.\<close>
  "onSignalFired mon = mon\<lparr>timer := Some (timeout mon)\<rparr>"

definition tick :: "ActivityMonitor \<Rightarrow> bool \<times> ActivityMonitor" where
  \<comment> \<open>Modelled from the spec: a millisecond passes; the result tells whether the timer ran
      out, that is, whether \<open>activityStopped\<close> is emitted.\<close>
  "tick mon =
     (case timer mon of
        None \<Rightarrow> (False, mon)
      | Some left \<Rightarrow>
          if left \<le> 1 then (True, mon\<lparr>timer := None\<rparr>)
          else (False, mon\<lparr>timer := Some (left - 1)\<rparr>))"

text \<open>
  \<open>DocumentRegistry.Context\<close>, as far as the viewer reads it: the text of the model and the
  path of the document.
\<close>

record Context =
  model :: string
  path :: string

record IOptionsOptionalContent =
  opt_context :: Context
  opt_content :: "IFrame option"

text \<open>
  What the viewer needs from outside: the text that \<open>_setBase\<close> returns for a document and
  the download url of its path (the work of \<open>DOMParser\<close>), and the url that
  \<open>URL.createObjectURL\<close> gives to the n-th blob.
\<close>

record viewer_env =
  with_base :: "string \<Rightarrow> string \<Rightarrow> string"
  object_url :: "nat \<Rightarrow> string"

record HTMLViewer =
  content :: IFrame
  doc_context :: Context
  renderPending :: bool
  monitor :: "ActivityMonitor option"
  objectUrl :: string
  \<comment> \<open>the callback given to \<open>context.ready.then\<close> has not run yet\<close>
  on_ready :: bool
  \<comment> \<open>the text with which \<open>_renderModel\<close> waits in \<open>_setBase\<close> for the download url\<close>
  awaiting :: "string option"
  \<comment> \<open>the browser: the blobs behind the object urls, and how many were created\<close>
  object_urls :: "string \<rightharpoonup> string"
  urls_created :: nat

definition new_HTMLViewer :: "IOptionsOptionalContent \<Rightarrow> HTMLViewer" where
  \<comment> \<open>the constructor: \<open>content\<close> comes after \<open>...options\<close> and replaces a content given there\<close>
  "new_HTMLViewer options =
     \<lparr>content = addClass CSS_CLASS (new_IFrame True [''allow-same-origin'']),
      doc_context = opt_context options,
      renderPending = False, monitor = None, objectUrl = [],
      on_ready = True, awaiting = None, object_urls = Map.empty, urls_created = 0\<rparr>"

definition createNewWidget :: "Context \<Rightarrow> HTMLViewer" where
  \<comment> \<open>\<open>HTMLViewerFactory.createNewWidget\<close>\<close>
  "createNewWidget ctx = new_HTMLViewer \<lparr>opt_context = ctx, opt_content = None\<rparr>"

definition createObjectURL :: "viewer_env \<Rightarrow> string \<Rightarrow> HTMLViewer \<Rightarrow> string \<times> HTMLViewer" where
  "createObjectURL env blob v =
     (let u = object_url env (urls_created v)
      in (u, v\<lparr>object_urls := (object_urls v)(u \<mapsto> blob), urls_created := Suc (urls_created v)\<rparr>))"

definition revokeObjectURL :: "string \<Rightarrow> HTMLViewer \<Rightarrow> HTMLViewer" where
  "revokeObjectURL u v = v\<lparr>object_urls := (object_urls v)(u := None)\<rparr>"

definition renderModel_start :: "HTMLViewer \<Rightarrow> HTMLViewer" where
  \<comment> \<open>\<open>_renderModel\<close> up to the \<open>await\<close> in \<open>_setBase\<close>\<close>
  "renderModel_start v = v\<lparr>awaiting := Some (model (doc_context v))\<rparr>"

definition renderModel_resume :: "viewer_env \<Rightarrow> string \<Rightarrow> HTMLViewer \<Rightarrow> HTMLViewer" where
  \<comment> \<open>the rest of \<open>_renderModel\<close>, and the \<open>then\<close> of \<open>onUpdateRequest\<close> that follows it\<close>
  "renderModel_resume env baseUrl v =
     (case awaiting v of
        None \<Rightarrow> v
      | Some data \<Rightarrow>
          (case createObjectURL env (with_base env data baseUrl) v of
             (u, v1) \<Rightarrow>
               let oldUrl = objectUrl v;
                   v2 = v1\<lparr>objectUrl := u, content := (content v1)\<lparr>url := u\<rparr>\<rparr>;
                   v3 = (if oldUrl \<noteq> [] then revokeObjectURL oldUrl v2 else v2)
               in v3\<lparr>awaiting := None, renderPending := False\<rparr>))"

definition onUpdateRequest :: "HTMLViewer \<Rightarrow> HTMLViewer" where
  "onUpdateRequest v =
     (if renderPending v then v else renderModel_start (v\<lparr>renderPending := True\<rparr>))"

datatype event =
    Ready             \<comment> \<open>\<open>context.ready\<close> resolves\<close>
  | Changed string    \<comment> \<open>the model gets a new text and emits \<open>contentChanged\<close>\<close>
  | Tick              \<comment> \<open>a millisecond passes\<close>
  | Resolved string   \<comment> \<open>the download url arrives and \<open>_setBase\<close> returns\<close>

definition step :: "viewer_env \<Rightarrow> event \<Rightarrow> HTMLViewer \<Rightarrow> HTMLViewer" where
  \<comment> \<open>\<open>update()\<close> is taken to deliver its update request at once\<close>
  "step env e v =
     (case e of
        Ready \<Rightarrow>
          if on_ready v then
            (onUpdateRequest (v\<lparr>on_ready := False\<rparr>))
              \<lparr>monitor := Some (new_ActivityMonitor RENDER_TIMEOUT)\<rparr>
          else v
      | Changed text \<Rightarrow>
          v\<lparr>doc_context := (doc_context v)\<lparr>model := text\<rparr>,
            monitor := map_option onSignalFired (monitor v)\<rparr>
      | Tick \<Rightarrow>
          (case monitor v of
             None \<Rightarrow> v
           | Some mon \<Rightarrow>
               (case tick mon of
                  (stopped, mon') \<Rightarrow>
                    if stopped then onUpdateRequest (v\<lparr>monitor := Some mon'\<rparr>)
                    else v\<lparr>monitor := Some mon'\<rparr>))
      | Resolved baseUrl \<Rightarrow> renderModel_resume env baseUrl v)"

definition run :: "viewer_env \<Rightarrow> event list \<Rightarrow> HTMLViewer \<Rightarrow> HTMLViewer" where
  "run env evs v = fold (step env) evs v"

subsection \<open>Quiet time and object urls\<close>





subsection \<open>A viewer at work\<close>

definition page_env :: viewer_env where
  "page_env = \<lparr>with_base = (\<lambda>data u. ''<base href='' @ u @ ''>'' @ data),
                object_url = (\<lambda>n. ''blob:'' @ replicate n (CHR ''1''))\<rparr>"

definition page_options :: IOptionsOptionalContent where
  "page_options = \<lparr>opt_context = \<lparr>model = ''<p>a</p>'', path = ''a.html''\<rparr>, opt_content = None\<rparr>"


section \<open>Properties\<close>

lemma str_includes_sublist: "str_includes key p \<longleftrightarrow> sublist p key"
  by (induction key) (auto simp: sublist_Cons_right)

subsection \<open>validateCSS\<close>

text \<open>
  C3, as the spec states it: validation is delegated entirely to \<open>CSS.supports\<close>. It is
  not: in a browser that accepts the value \<open>1px\<close> for each of the three properties,
  \<open>validateCSS\<close> still rejects the key \<open>border-width\<close>, which names none of them.
\<close>

theorem validateCSS_not_delegated:
  "supports_any ''color'' ''1px'' \<and> supports_any ''font-family'' ''1px''
   \<and> supports_any ''size'' ''1px'' \<and> \<not> validateCSS supports_any ''border-width'' ''1px''"
  by (simp add: validateCSS_def css_prop_def cssProps_def supports_any_def)

text \<open>
  C3, amended: \<open>validateCSS(key, val)\<close> is true exactly when the key contains one of
  \<open>color\<close>, \<open>font-family\<close>, \<open>size\<close> and \<open>CSS.supports\<close> accepts the value for the first
  of them (in this order) that the key contains. A key that contains none is rejected
  whatever the browser supports.
\<close>

theorem validateCSS_delegates:
  "validateCSS f key val \<longleftrightarrow>
     (\<exists>prop. find (\<lambda>p. sublist p key) [''color'', ''font-family'', ''size''] = Some prop
             \<and> f prop val)"
  by (auto simp: validateCSS_def css_prop_def cssProps_def str_includes_sublist split: option.splits)

text \<open>C3 at the key \<open>code-font-size\<close>, which contains \<open>size\<close>.\<close>

theorem validateCSS_delegates_witness:
  "validateCSS supports_any ''code-font-size'' ''13px''"
  using validateCSS_delegates [of supports_any "''code-font-size''" "''13px''"]
  by (simp add: supports_any_def str_includes_sublist [symmetric])

subsection \<open>register\<close>



subsection \<open>loadCSSOverrides\<close>

lemma keys_dict_set: "set (keys (dict_set d k v)) = insert k (set (keys d))"
  by (induction d k v rule: dict_set.induct) (auto simp: keys_def)

lemma keys_fold_dict_set:
  "set (keys (fold (\<lambda>(k, v) d. dict_set d k v) xs d)) = set (map fst xs) \<union> set (keys d)"
  by (induction xs arbitrary: d) (auto simp: keys_dict_set)

lemma keys_spread: "set (keys (spread a b)) = set (keys a) \<union> set (keys (b :: 'a Dict))"
proof -
  have "set (keys (spread a b)) = set (map fst (a @ b)) \<union> set (keys ([] :: 'a Dict))"
    unfolding spread_def by (rule keys_fold_dict_set)
  then show ?thesis by (auto simp: keys_def)
qed

lemma css_var_inj: "css_var a = css_var b \<longleftrightarrow> a = b"
  by (simp add: css_var_def)

lemma load_override_style:
  "style (load_override env new key m) = (style m)(css_var key := override_of env new key)"
  by (auto simp: load_override_def override_of_def setProperty_def removeProperty_def
           split: option.splits)

lemma fold_load_override_var:
  "style (fold (load_override env new) ks m) (css_var k) =
     (if k \<in> set ks then override_of env new k else style m (css_var k))"
  by (induction ks arbitrary: m) (auto simp: load_override_style css_var_inj)

lemma fold_load_override_other:
  "p \<notin> css_var ` set ks \<Longrightarrow> style (fold (load_override env new) ks m) p = style m p"
  by (induction ks arbitrary: m) (auto simp: load_override_style)

text \<open>
  C9: after \<open>loadCSSOverrides\<close> the stored overrides are the new ones as they came, also
  those that failed validation. For every key of the old or the new overrides, the variable
  \<open>--jp-key\<close> holds the new value if that value is truthy and passes \<open>validateCSS\<close>, and is
  removed otherwise. No other property of the style changes.
\<close>

theorem loadCSSOverrides_sets_valid:
  "overrides (loadCSSOverrides env settings m) = user_overrides_or_empty settings
   \<and> (\<forall>key \<in> set (keys (overrides m)) \<union> set (keys (user_overrides_or_empty settings)).
        style (loadCSSOverrides env settings m) (css_var key) =
          (case dict_get (user_overrides_or_empty settings) key of
             None \<Rightarrow> None
           | Some v \<Rightarrow> if v \<noteq> [] \<and> validateCSS (supports env) key v then Some v else None))
   \<and> (\<forall>p. p \<notin> css_var ` (set (keys (overrides m)) \<union> set (keys (user_overrides_or_empty settings)))
        \<longrightarrow> style (loadCSSOverrides env settings m) p = style m p)"
  by (simp add: loadCSSOverrides_def Let_def fold_load_override_var fold_load_override_other
        keys_spread override_of_def)

text \<open>
  C9 on a manager that overrides \<open>code-font-size\<close>, with new overrides of which one is valid,
  one names no property and one is empty: the valid one is set, the three others are removed.
\<close>

theorem loadCSSOverrides_sets_valid_witness:
  "overrides (loadCSSOverrides local_env override_settings overridden_manager)
     = [(''ui-font-size1'', ''15px''), (''border-width'', ''2px''), (''content-font-family'', [])]
   \<and> style (loadCSSOverrides local_env override_settings overridden_manager) ''--jp-ui-font-size1''
       = Some ''15px''
   \<and> style (loadCSSOverrides local_env override_settings overridden_manager) ''--jp-border-width''
       = None
   \<and> style (loadCSSOverrides local_env override_settings overridden_manager) ''--jp-content-font-family''
       = None
   \<and> style (loadCSSOverrides local_env override_settings overridden_manager) ''--jp-code-font-size''
       = None"
  using loadCSSOverrides_sets_valid [of local_env override_settings overridden_manager]
  by (simp add: user_overrides_or_empty_def override_settings_def overridden_manager_def
        new_ThemeManager_def keys_def css_var_def dict_get_def validateCSS_def css_prop_def
        cssProps_def local_env_def supports_any_def)

subsection \<open>_loadTheme\<close>

lemma not_in_document:
  "\<not> in_document l m \<Longrightarrow> filter (\<lambda>b. node b \<noteq> node l) (body m) = body m"
  by (auto simp: in_document_def filter_id_conv image_iff)

lemma fold_unload_body:
  "body (fold (\<lambda>link m'. if in_document link m' then removeChild link m' else m') ls m)
     = filter (\<lambda>b. node b \<notin> node ` set ls) (body m)"
proof (induction ls arbitrary: m)
  case Nil
  show ?case by simp
next
  case (Cons l ls)
  show ?case
  proof (cases "in_document l m")
    case True
    then show ?thesis
      by (auto simp: Cons removeChild_def conj_commute intro!: filter_cong)
  next
    case False
    have "filter (\<lambda>b. node b \<notin> node ` set ls) (body m)
          = filter (\<lambda>b. node b \<notin> node ` set ls) (filter (\<lambda>b. node b \<noteq> node l) (body m))"
      using not_in_document [OF False] by simp
    with False show ?thesis
      by (auto simp: Cons conj_commute intro!: filter_cong)
  qed
qed

lemma fold_unload_fields:
  "next_node (fold (\<lambda>link m'. if in_document link m' then removeChild link m' else m') ls m) = next_node m
   \<and> base (fold (\<lambda>link m'. if in_document link m' then removeChild link m' else m') ls m) = base m"
  by (induction ls arbitrary: m) (auto simp: removeChild_def)

lemma unload_links_simps:
  "links (unload_links m) = []"
  "body (unload_links m) = filter (\<lambda>b. node b \<notin> node ` set (links m)) (body m)"
  "next_node (unload_links m) = next_node m"
  "base (unload_links m) = base m"
  by (simp_all add: unload_links_def fold_unload_body fold_unload_fields)

lemma fold_loadCSS:
  "links (fold (loadCSS env) ps m) = links m @ stylesheets env (base m) (next_node m) ps
   \<and> body (fold (loadCSS env) ps m) = body m @ stylesheets env (base m) (next_node m) ps
   \<and> next_node (fold (loadCSS env) ps m) = next_node m + length ps
   \<and> base (fold (loadCSS env) ps m) = base m"
  by (induction ps arbitrary: m) (simp_all add: loadCSS_def Let_def)

lemma stylesheets_attrs:
  "map href (stylesheets env b n ps) = map (resolve env b) ps
   \<and> map node (stylesheets env b n ps) = [n ..< n + length ps]"
  by (induction ps arbitrary: n) (simp_all add: upt_rec)

lemma stylesheets_nodes:
  assumes "l \<in> set (stylesheets env b n ps)"
  shows "n \<le> node l"
proof -
  from assms have "node l \<in> set (map node (stylesheets env b n ps))" by simp
  then have "node l \<in> set [n ..< n + length ps]" by (simp only: stylesheets_attrs)
  then show ?thesis by simp
qed

lemma loadTheme_registered:
  assumes "themes m theme = Some t"
  shows "loadTheme env theme m =
     (let m2 = unload_links (if splash m then show_splash (isLight t) m else m)
      in if (case current m of None \<Rightarrow> False | Some c \<Rightarrow> c \<noteq> [] \<and> themes m c = None)
         then (Throw (TypeError ''unload''), m2)
         else (Ok (Loading theme), fold (loadCSS env) (load t) m2))"
  using assms by (simp add: loadTheme_def Let_def)

text \<open>
  C6: \<open>_loadTheme\<close> swaps the stylesheets. For a registered theme and links whose nodes
  were created on this page, no link that \<open>loadCSS\<close> had appended is in the document when
  \<open>_loadTheme\<close> is through. If it throws (the current theme is no longer registered), the list
  of links is empty. Otherwise the old links had left the document and the list was empty
  before the first \<open>loadCSS\<close> of the new theme ran, and afterwards the list holds the
  stylesheets of the new theme and nothing else, appended to what else the body holds.
\<close>

theorem loadTheme_swaps:
  assumes "themes m theme = Some t" and "links_fresh m"
  shows "(\<forall>l \<in> set (links m). \<not> in_document l (snd (loadTheme env theme m)))
       \<and> (case fst (loadTheme env theme m) of
            Throw e \<Rightarrow> links (snd (loadTheme env theme m)) = []
          | Ok p \<Rightarrow>
              (\<exists>mid. links mid = [] \<and> (\<forall>l \<in> set (links m). \<not> in_document l mid)
                  \<and> snd (loadTheme env theme m) = fold (loadCSS env) (load t) mid)
              \<and> links (snd (loadTheme env theme m))
                  = stylesheets env (base m) (next_node m) (load t)
              \<and> body (snd (loadTheme env theme m))
                  = filter (\<lambda>b. node b \<notin> node ` set (links m)) (body m)
                    @ links (snd (loadTheme env theme m)))"
proof -
  let ?m1 = "if splash m then show_splash (isLight t) m else m"
  let ?mid = "unload_links ?m1"
  let ?m' = "fold (loadCSS env) (load t) ?mid"
  have f1: "links ?m1 = links m" "body ?m1 = body m" "next_node ?m1 = next_node m" "base ?m1 = base m"
    by (simp_all add: show_splash_def)
  have mid: "links ?mid = []" "\<forall>l \<in> set (links m). \<not> in_document l ?mid"
    using f1 by (force simp: unload_links_simps in_document_def image_iff)+
  have l': "links ?m' = stylesheets env (base m) (next_node m) (load t)"
    using f1 by (simp add: fold_loadCSS unload_links_simps)
  have b': "body ?m' = filter (\<lambda>b. node b \<notin> node ` set (links m)) (body m) @ links ?m'"
    using f1 by (simp add: fold_loadCSS unload_links_simps)
  have gone: "\<not> in_document l ?m'" if "l \<in> set (links m)" for l
  proof -
    from that assms(2) have "node l < next_node m" by (simp add: links_fresh_def list_all_iff)
    then have "node l \<notin> node ` set (links ?m')"
      using stylesheets_nodes [of _ env "base m" "next_node m" "load t"] by (fastforce simp: l')
    with that show ?thesis by (force simp: in_document_def b' image_iff)
  qed
  show ?thesis
  proof (cases "case current m of None \<Rightarrow> False | Some c \<Rightarrow> c \<noteq> [] \<and> themes m c = None")
    case True
    then have "loadTheme env theme m = (Throw (TypeError ''unload''), ?mid)"
      by (simp add: loadTheme_registered [OF assms(1)])
    with mid show ?thesis by simp
  next
    case False
    then have "loadTheme env theme m = (Ok (Loading theme), ?m')"
      by (simp add: loadTheme_registered [OF assms(1)])
    with mid l' b' gone show ?thesis by auto
  qed
qed

lemma links_fresh_loadCSS: "links_fresh m \<Longrightarrow> links_fresh (loadCSS env p m)"
  by (auto simp: links_fresh_def loadCSS_def Let_def list_all_iff)

text \<open>The links stay fresh: a manager starts so, and \<open>loadCSS\<close> and \<open>_loadTheme\<close> keep it so.\<close>

lemma links_fresh_new: "links_fresh (new_ThemeManager b with_splash)"
  by (simp add: links_fresh_def new_ThemeManager_def)

lemma links_fresh_fold_loadCSS: "links_fresh m \<Longrightarrow> links_fresh (fold (loadCSS env) ps m)"
  by (induction ps arbitrary: m) (simp_all add: links_fresh_loadCSS)

lemma links_fresh_loadTheme:
  assumes "links_fresh m"
  shows "links_fresh (snd (loadTheme env theme m))"
proof -
  have u: "links_fresh (unload_links x)" for x
    by (simp add: links_fresh_def unload_links_simps)
  show ?thesis
    using assms
    by (auto simp: loadTheme_def Let_def u links_fresh_fold_loadCSS split: option.splits)
qed

text \<open>
  C6 on a manager that shows the light theme: loading the dark theme leaves the stylesheet
  of the dark theme as the only link and the only child of the body.
\<close>

theorem loadTheme_swaps_witness:
  "links (snd (loadTheme local_env ''JupyterLab Dark'' lit_manager))
     = [\<lparr>node = 1, rel = ''stylesheet'', type_attr = ''text/css'',
         href = ''/lab/api/themes/@jupyterlab/theme-dark-extension/index.css''\<rparr>]
   \<and> body (snd (loadTheme local_env ''JupyterLab Dark'' lit_manager))
     = [\<lparr>node = 1, rel = ''stylesheet'', type_attr = ''text/css'',
         href = ''/lab/api/themes/@jupyterlab/theme-dark-extension/index.css''\<rparr>]"
proof -
  have t: "themes lit_manager ''JupyterLab Dark'' = Some dark_theme"
    by (simp add: lit_manager_def)
  have f: "links_fresh lit_manager"
    by (simp add: links_fresh_def lit_manager_def light_theme_def)
  have ok: "fst (loadTheme local_env ''JupyterLab Dark'' lit_manager) = Ok (Loading ''JupyterLab Dark'')"
    by (simp add: loadTheme_registered [OF t] Let_def) (simp add: lit_manager_def)
  show ?thesis
    using loadTheme_swaps [OF t f, of local_env]
    by (simp add: ok) (simp add: lit_manager_def light_theme_def dark_theme_def resolve_def
          local_env_def new_ThemeManager_def)
qed

subsection \<open>_loadSettings and the retry loop\<close>


























subsection \<open>The HTML viewer\<close>

lemma onUpdateRequest_kept:
  "content (onUpdateRequest v) = content v" "monitor (onUpdateRequest v) = monitor v"
  "on_ready (onUpdateRequest v) = on_ready v" "objectUrl (onUpdateRequest v) = objectUrl v"
  "object_urls (onUpdateRequest v) = object_urls v" "urls_created (onUpdateRequest v) = urls_created v"
  by (simp_all add: onUpdateRequest_def renderModel_start_def)

lemma renderModel_resume_kept:
  "monitor (renderModel_resume env u v) = monitor v"
  "on_ready (renderModel_resume env u v) = on_ready v"
  "sandbox (content (renderModel_resume env u v)) = sandbox (content v)"
  "exceptions (content (renderModel_resume env u v)) = exceptions (content v)"
  by (simp_all add: renderModel_resume_def createObjectURL_def revokeObjectURL_def Let_def
        split: option.splits)

lemma step_sandbox:
  "sandbox (content (step env e v)) = sandbox (content v)
   \<and> exceptions (content (step env e v)) = exceptions (content v)"
  by (cases e)
     (simp_all add: step_def onUpdateRequest_kept renderModel_resume_kept
        split: option.splits prod.splits)

lemma run_sandbox:
  "sandbox (content (run env evs v)) = sandbox (content v)
   \<and> exceptions (content (run env evs v)) = exceptions (content v)"
  unfolding run_def by (induction evs arbitrary: v) (simp_all add: step_sandbox)

text \<open>
  C1: the content of a viewer made by the constructor, or by \<open>createNewWidget\<close>, is an
  \<open>IFrame\<close> made with the sandbox on and with \<open>allow-same-origin\<close> as its one exception, also
  when the options bring a content of their own; and after any events the viewer handles,
  both are as they were made.
\<close>

theorem viewer_sandboxed:
  "sandbox (content (new_HTMLViewer options))
   \<and> exceptions (content (new_HTMLViewer options)) = [''allow-same-origin'']
   \<and> sandbox (content (run env evs (new_HTMLViewer options)))
   \<and> exceptions (content (run env evs (new_HTMLViewer options))) = [''allow-same-origin'']
   \<and> sandbox (content (run env evs (createNewWidget ctx)))
   \<and> exceptions (content (run env evs (createNewWidget ctx))) = [''allow-same-origin'']"
  by (simp add: run_sandbox createNewWidget_def) (simp add: new_HTMLViewer_def new_IFrame_def addClass_def)


















subsection \<open>Timers\<close>

lemma loadSettings_Waiting_timer:
  assumes "loadSettings env settings m = (Waiting, m')"
  shows "pending m' \<noteq> 0 \<and> timers m' (pending m') = Some REQUEST_INTERVAL"
  using assms
  by (auto simp: loadSettings_def Let_def setTimeout_def
           split: if_splits prod.splits result.splits)

lemma step_Ready_monitor:
  "on_ready v \<Longrightarrow> monitor (step venv Ready v) = Some (new_ActivityMonitor RENDER_TIMEOUT)"
  by (simp add: step_def)

text \<open>
  C5, amended: the timer that \<open>_loadSettings\<close> sets when it waits runs for
  \<open>REQUEST_INTERVAL\<close>, 75 milliseconds, and the monitor that the viewer makes when the context
  is ready waits for \<open>RENDER_TIMEOUT\<close>, 1000 milliseconds.
\<close>

theorem timer_delays:
  "REQUEST_INTERVAL = 75 \<and> RENDER_TIMEOUT = 1000
   \<and> (loadSettings env settings m = (Waiting, m')
        \<longrightarrow> pending m' \<noteq> 0 \<and> timers m' (pending m') = Some REQUEST_INTERVAL)
   \<and> (on_ready v \<longrightarrow> map_option timeout (monitor (step venv Ready v)) = Some RENDER_TIMEOUT)"
proof -
  have "REQUEST_INTERVAL = 75" "RENDER_TIMEOUT = 1000"
    by (simp_all add: REQUEST_INTERVAL_def RENDER_TIMEOUT_def)
  moreover have "on_ready v \<longrightarrow> map_option timeout (monitor (step venv Ready v)) = Some RENDER_TIMEOUT"
    by (simp add: step_Ready_monitor new_ActivityMonitor_def)
  ultimately show ?thesis
    using loadSettings_Waiting_timer [of env settings m m'] by blast
qed

text \<open>
  C5, as the spec states it: both timers are below 10 milliseconds. Neither is.
\<close>

theorem timers_not_single_digit:
  "\<not> REQUEST_INTERVAL < 10 \<and> \<not> RENDER_TIMEOUT < 10"
  by (simp add: REQUEST_INTERVAL_def RENDER_TIMEOUT_def)

text \<open>
  C5 on a new manager that waits for the dark theme, and on a new viewer that gets ready.
\<close>

theorem timer_delays_witness:
  "fst (loadSettings local_env dark_settings (new_ThemeManager ''/lab/api/themes'' False)) = Waiting
   \<and> timers (snd (loadSettings local_env dark_settings (new_ThemeManager ''/lab/api/themes'' False)))
        (pending (snd (loadSettings local_env dark_settings
                        (new_ThemeManager ''/lab/api/themes'' False)))) = Some 75
   \<and> map_option timeout (monitor (step page_env Ready (new_HTMLViewer page_options))) = Some 1000"
proof -
  let ?r = "loadSettings local_env dark_settings (new_ThemeManager ''/lab/api/themes'' False)"
  have w: "fst ?r = Waiting"
    by (simp add: loadSettings_def Let_def new_ThemeManager_def dark_settings_def next_count_def
          REQUEST_THRESHOLD_def setTimeout_def)
  then have "?r = (Waiting, snd ?r)" by (metis prod.collapse)
  then show ?thesis
    using timer_delays [of local_env dark_settings "new_ThemeManager ''/lab/api/themes'' False"
                           "snd ?r" "new_HTMLViewer page_options" page_env] w
    by (simp add: new_HTMLViewer_def)
qed

end
